theory Spec2Isabelle
  imports Complex_Main "HOL-Library.Option_ord"
begin

section \<open>Data model\<close>

text \<open>
  The backend keeps its data in six PostgreSQL tables (\<^verbatim>\<open>config/schema.sql\<close>) and talks to
  a payment processor. Rows are records; a table that is only read and written by primary
  key is a map from the key to the row, and \<^verbatim>\<open>provider_capabilities\<close>, which is scanned
  by \<^verbatim>\<open>ProviderCapability.search\<close>, is the list of its rows.

  JavaScript numbers and \<^verbatim>\<open>DECIMAL\<close> columns are exact rationals here; a result that
  JavaScript would give as \<^verbatim>\<open>NaN\<close> or \<^verbatim>\<open>Infinity\<close> is \<open>None\<close>. Identifiers
  (\<^verbatim>\<open>uuidv4()\<close>) and clock readings (\<^verbatim>\<open>NOW()\<close>, \<^verbatim>\<open>new Date()\<close>) are arguments of
  the operation that needs them. A thrown \<^verbatim>\<open>Error\<close> is \<open>Inl\<close> of its message.
  Foreign-key violations and connection failures of the store are not modelled.
\<close>

type_synonym uuid = string
type_synonym timestamp = nat
type_synonym number = rat

text \<open>The request object read by \<^verbatim>\<open>findMatches\<close> and \<^verbatim>\<open>calculateMatchScore\<close>.\<close>

record request =
  gpu_count :: int
  gpu_type :: string
  duration_hours :: int
  max_price_per_hour :: number
  region :: "string option"

text \<open>Table \<^verbatim>\<open>agents\<close>: the columns the modelled queries read.\<close>

record agent =
  a_name :: string
  a_type :: string
  a_reputation_score :: "number option"
  a_uptime_percentage :: "number option"

text \<open>
  Table \<^verbatim>\<open>provider_capabilities\<close>. \<^verbatim>\<open>available_hours\<close> is an \<^verbatim>\<open>INT DEFAULT 0\<close>; a
  \<^verbatim>\<open>NULL\<close> there compares like 0 under JavaScript's \<^verbatim>\<open>>=\<close>, so the column is an \<open>int\<close>.
\<close>

record capability =
  pc_id :: uuid
  pc_provider_id :: uuid
  pc_gpu_count :: int
  pc_gpu_type :: string
  pc_cpu_cores :: int
  pc_memory_gb :: int
  pc_price_per_hour :: number
  pc_available_hours :: int
  pc_region :: "string option"
  pc_availability_status :: string
  pc_created_at :: timestamp
  pc_updated_at :: timestamp

text \<open>A row of \<^verbatim>\<open>SELECT pc.*, a.reputation_score, a.uptime_percentage\<close>.\<close>

record provider = capability +
  reputation_score :: "number option"
  uptime_percentage :: "number option"

text \<open>\<^verbatim>\<open>{...provider, match_score}\<close>\<close>

record scored_provider = provider +
  match_score :: "number option"

text \<open>Table \<^verbatim>\<open>compute_requests\<close> (it has no region column).\<close>

record compute_request =
  cr_requester_id :: uuid
  cr_gpu_count :: int
  cr_gpu_type :: string
  cr_cpu_cores :: "int option"
  cr_memory_gb :: "int option"
  cr_duration_hours :: int
  cr_max_price_per_hour :: number
  cr_status :: string
  cr_description :: "string option"
  cr_created_at :: timestamp
  cr_updated_at :: timestamp

text \<open>Table \<^verbatim>\<open>matches\<close>.\<close>

record match =
  m_request_id :: uuid
  m_provider_id :: uuid
  m_capability_id :: "uuid option"
  m_agreed_price_per_hour :: number
  m_status :: string
  m_start_time :: "timestamp option"
  m_end_time :: "timestamp option"
  m_created_at :: timestamp
  m_updated_at :: timestamp

text \<open>Table \<^verbatim>\<open>transactions\<close>.\<close>

record transaction =
  t_match_id :: uuid
  t_requester_id :: uuid
  t_provider_id :: uuid
  t_amount :: number
  t_currency :: string
  t_status :: string
  t_payment_method :: "string option"
  t_transaction_hash :: "string option"
  t_created_at :: timestamp
  t_updated_at :: timestamp

text \<open>Table \<^verbatim>\<open>verifications\<close>; \<^verbatim>\<open>proof_data\<close> holds the serialised payload.\<close>

record verification =
  v_transaction_id :: uuid
  v_verifier_id :: "uuid option"
  v_proof_hash :: "string option"
  v_proof_data :: "string option"
  v_verified :: bool
  v_notes :: "string option"
  v_created_at :: timestamp
  v_updated_at :: timestamp

text \<open>
  The payment processor. Every request the services send to it is appended to a log; what
  it answers is an argument of the operation (\<open>Inl\<close> when the client library throws).
\<close>

datatype stripe_call =
  PaymentIntentsCreate int string uuid uuid uuid
| PaymentIntentsRetrieve string
| RefundsCreate "string option"

record payment_intent =
  pi_id :: string
  pi_client_secret :: string
  pi_status :: string

record state =
  agents :: "uuid \<rightharpoonup> agent"
  provider_capabilities :: "capability list"
  compute_requests :: "uuid \<rightharpoonup> compute_request"
  matches :: "uuid \<rightharpoonup> match"
  transactions :: "uuid \<rightharpoonup> transaction"
  verifications :: "uuid \<rightharpoonup> verification"
  stripe_calls :: "stripe_call list"

section \<open>Discovery and matching engine\<close>

text \<open>
  \<^verbatim>\<open>value || fallback\<close> on a number that may be absent: JavaScript takes the fallback
  for \<^verbatim>\<open>undefined\<close>, \<^verbatim>\<open>null\<close> and also for 0.
\<close>

definition or_default :: "number option \<Rightarrow> number \<Rightarrow> number" where
  "or_default v d = (case v of None \<Rightarrow> d | Some x \<Rightarrow> if x = 0 then d else x)"

text \<open>
  \<^verbatim>\<open>calculateMatchScore\<close> of \<^verbatim>\<open>utils/helpers.js\<close>. The division is by
  \<^verbatim>\<open>max_price_per_hour\<close>; when that is 0 in the price branch the JavaScript result is
  \<^verbatim>\<open>NaN\<close> or \<^verbatim>\<open>Infinity\<close>, which \<^verbatim>\<open>Math.max(0, _)\<close> passes on.
\<close>

definition calculateMatchScore :: "request \<Rightarrow> 'a provider_scheme \<Rightarrow> number option" where
  "calculateMatchScore request capability =
    (if pc_price_per_hour capability \<le> max_price_per_hour request
        \<and> max_price_per_hour request = 0
     then None
     else Some
      (let score = 100;
           score = (if pc_gpu_count capability \<ge> gpu_count request
                    then score + 20 else score - 30);
           score = (if pc_price_per_hour capability \<le> max_price_per_hour request
                    then (let priceRatio = pc_price_per_hour capability / max_price_per_hour request
                          in score + (1 - priceRatio) * 20)
                    else score - 40);
           score = (if pc_available_hours capability \<ge> duration_hours request
                    then score + 15 else score - 20);
           score = score + or_default (reputation_score capability) 5 * 2
       in max 0 score))"

text \<open>A string used as a condition (\<^verbatim>\<open>if (region)\<close>, \<^verbatim>\<open>region || null\<close>): absent and empty are false.\<close>

definition truthy :: "string option \<Rightarrow> bool" where
  "truthy v = (case v of None \<Rightarrow> False | Some x \<Rightarrow> x \<noteq> [])"

definition or_null :: "string option \<Rightarrow> string option" where
  "or_null v = (if truthy v then v else None)"

text \<open>\<^verbatim>\<open>FROM provider_capabilities pc JOIN agents a ON pc.provider_id = a.id\<close>\<close>

definition join_agent :: "state \<Rightarrow> capability \<Rightarrow> provider option" where
  "join_agent s pc =
    (case agents s (pc_provider_id pc) of
       None \<Rightarrow> None
     | Some a \<Rightarrow> Some (capability.extend pc
         (provider.fields (a_reputation_score a) (a_uptime_percentage a))))"

text \<open>
  \<^verbatim>\<open>ProviderCapability.search\<close>. The \<^verbatim>\<open>ORDER BY pc.price_per_hour ASC,
  a.reputation_score DESC\<close> is a stable sort of the table order (PostgreSQL puts
  \<^verbatim>\<open>NULL\<close> first in a descending order).
\<close>

definition search :: "state \<Rightarrow> int \<Rightarrow> string \<Rightarrow> number \<Rightarrow> string option \<Rightarrow> provider list" where
  "search s gpuCount gpuType maxPrice region' =
    (let rows = List.map_filter (join_agent s) (provider_capabilities s);
         rows = filter (\<lambda>r. pc_gpu_count r \<ge> gpuCount
                           \<and> pc_gpu_type r = gpuType
                           \<and> pc_price_per_hour r \<le> maxPrice
                           \<and> pc_availability_status r = ''available'') rows;
         rows = (if truthy region' then filter (\<lambda>r. pc_region r = region') rows else rows)
     in sort_key pc_price_per_hour
          (sort_key (\<lambda>r. map_option uminus (reputation_score r)) rows))"

text \<open>
  \<^verbatim>\<open>MatchingService.findMatches\<close>. \<^verbatim>\<open>Array.prototype.sort\<close> is stable and the
  comparator \<^verbatim>\<open>b.match_score - a.match_score\<close> orders by descending score. The rows of one
  call share the request, so their scores are all finite or all not; in the second case
  every comparison is \<^verbatim>\<open>NaN\<close>, which the sort reads as equal, and the order stays.
\<close>

definition with_score :: "request \<Rightarrow> provider \<Rightarrow> scored_provider" where
  "with_score request p = provider.extend p (scored_provider.fields (calculateMatchScore request p))"

definition score_key :: "scored_provider \<Rightarrow> number" where
  "score_key p = (case match_score p of None \<Rightarrow> 0 | Some x \<Rightarrow> - x)"

definition findMatches :: "state \<Rightarrow> request \<Rightarrow> nat \<Rightarrow> scored_provider list" where
  "findMatches s request limit =
    (let providers = search s (gpu_count request) (gpu_type request)
                       (max_price_per_hour request) (or_null (region request))
     in if length providers = 0 then []
        else let scoredProviders = map (with_score request) providers;
                 scoredProviders = sort_key score_key scoredProviders
             in take limit scoredProviders)"

section \<open>Match lifecycle\<close>

text \<open>\<^verbatim>\<open>ComputeRequest.findById\<close>\<close>

definition ComputeRequest_findById :: "state \<Rightarrow> uuid \<Rightarrow> compute_request option" where
  "ComputeRequest_findById s id' = compute_requests s id'"

text \<open>
  \<^verbatim>\<open>Match.findById\<close>: the row joined with its request and its provider's agent row; the
  joined columns are not read by the services.
\<close>

definition Match_findById :: "state \<Rightarrow> uuid \<Rightarrow> match option" where
  "Match_findById s id' =
    (case matches s id' of
       None \<Rightarrow> None
     | Some m \<Rightarrow>
        (case compute_requests s (m_request_id m) of
           None \<Rightarrow> None
         | Some cr \<Rightarrow>
            (case agents s (m_provider_id m) of
               None \<Rightarrow> None
             | Some a \<Rightarrow> Some m)))"

text \<open>The fields the services pass in an \<^verbatim>\<open>updates\<close> object.\<close>

datatype match_update = Status string | Start_time timestamp | End_time timestamp

fun set_match_field :: "match_update \<Rightarrow> match \<Rightarrow> match" where
  "set_match_field (Status v) m = m\<lparr>m_status := v\<rparr>"
| "set_match_field (Start_time v) m = m\<lparr>m_start_time := Some v\<rparr>"
| "set_match_field (End_time v) m = m\<lparr>m_end_time := Some v\<rparr>"

text \<open>\<^verbatim>\<open>Match.update\<close>: \<^verbatim>\<open>UPDATE matches SET ..., updated_at = CURRENT_TIMESTAMP WHERE id = .. RETURNING *\<close>\<close>

definition Match_update :: "state \<Rightarrow> timestamp \<Rightarrow> uuid \<Rightarrow> match_update list \<Rightarrow> match option \<times> state" where
  "Match_update s now id' updates =
    (if length updates = 0 then (Match_findById s id', s)
     else case matches s id' of
            None \<Rightarrow> (None, s)
          | Some m \<Rightarrow>
             (let m' = (fold set_match_field updates m)\<lparr>m_updated_at := now\<rparr>
              in (Some m', s\<lparr>matches := (matches s)(id' \<mapsto> m')\<rparr>)))"

text \<open>\<^verbatim>\<open>ComputeRequest.update\<close>, for the one field the services set.\<close>

datatype request_update = Request_status string

fun set_request_field :: "request_update \<Rightarrow> compute_request \<Rightarrow> compute_request" where
  "set_request_field (Request_status v) r = r\<lparr>cr_status := v\<rparr>"

definition ComputeRequest_update ::
  "state \<Rightarrow> timestamp \<Rightarrow> uuid \<Rightarrow> request_update list \<Rightarrow> compute_request option \<times> state" where
  "ComputeRequest_update s now id' updates =
    (if length updates = 0 then (ComputeRequest_findById s id', s)
     else case compute_requests s id' of
            None \<Rightarrow> (None, s)
          | Some r \<Rightarrow>
             (let r' = (fold set_request_field updates r)\<lparr>cr_updated_at := now\<rparr>
              in (Some r', s\<lparr>compute_requests := (compute_requests s)(id' \<mapsto> r')\<rparr>)))"

text \<open>
  \<^verbatim>\<open>Match.create\<close>: the insert leaves \<^verbatim>\<open>status\<close> at its default \<^verbatim>\<open>'proposed'\<close>. The new
  id is \<^verbatim>\<open>generateId()\<close>; a primary key already present makes the insert fail.
\<close>

definition Match_create ::
  "state \<Rightarrow> timestamp \<Rightarrow> uuid \<Rightarrow> uuid \<Rightarrow> uuid \<Rightarrow> uuid \<Rightarrow> number \<Rightarrow> (string + match) \<times> state" where
  "Match_create s now id' requestId providerId capabilityId agreedPricePerHour =
    (if matches s id' \<noteq> None
     then (Inl ''duplicate key value violates unique constraint \"matches_pkey\"'', s)
     else let m = \<lparr>m_request_id = requestId, m_provider_id = providerId,
                     m_capability_id = Some capabilityId,
                     m_agreed_price_per_hour = agreedPricePerHour,
                     m_status = ''proposed'', m_start_time = None, m_end_time = None,
                     m_created_at = now, m_updated_at = now\<rparr>
          in (Inr m, s\<lparr>matches := (matches s)(id' \<mapsto> m)\<rparr>))"

text \<open>The request object of a \<^verbatim>\<open>compute_requests\<close> row: \<^verbatim>\<open>request.region\<close> is undefined.\<close>

definition request_of_row :: "compute_request \<Rightarrow> request" where
  "request_of_row r =
    \<lparr>gpu_count = cr_gpu_count r, gpu_type = cr_gpu_type r,
     duration_hours = cr_duration_hours r,
     max_price_per_hour = cr_max_price_per_hour r, region = None\<rparr>"

text \<open>\<^verbatim>\<open>MatchingService.autoMatch\<close>; \<open>Inr None\<close> is the returned \<^verbatim>\<open>null\<close>.\<close>

definition autoMatch :: "state \<Rightarrow> timestamp \<Rightarrow> uuid \<Rightarrow> uuid \<Rightarrow> (string + match option) \<times> state" where
  "autoMatch s now newId requestId =
    (case ComputeRequest_findById s requestId of
       None \<Rightarrow> (Inl ''Request not found'', s)
     | Some request \<Rightarrow>
        (let matches' = findMatches s (request_of_row request) 1
         in if length matches' = 0 then (Inr None, s)
            else let bestProvider = hd matches'
                 in (case Match_create s now newId requestId (pc_provider_id bestProvider)
                            (pc_id bestProvider) (pc_price_per_hour bestProvider) of
                       (Inl e, s1) \<Rightarrow> (Inl e, s1)
                     | (Inr match', s1) \<Rightarrow>
                        (let (r, s2) = ComputeRequest_update s1 now requestId
                                         [Request_status ''matched'']
                         in (Inr (Some match'), s2)))))"



text \<open>\<^verbatim>\<open>MatchingService.cancelMatch\<close>: \<^verbatim>\<open>agentId\<close> is not read.\<close>

definition cancelMatch :: "state \<Rightarrow> timestamp \<Rightarrow> uuid \<Rightarrow> uuid \<Rightarrow> (string + match option) \<times> state" where
  "cancelMatch s now matchId agentId =
    (case Match_findById s matchId of
       None \<Rightarrow> (Inl ''Match not found'', s)
     | Some match' \<Rightarrow>
        let (updatedMatch, s1) = Match_update s now matchId [Status ''cancelled'']
        in (Inr updatedMatch, s1))"

section \<open>Payment and escrow\<close>

text \<open>The object \<^verbatim>\<open>createPaymentIntent\<close> returns.\<close>

record payment_data =
  pd_transactionId :: uuid
  pd_paymentIntentId :: string
  pd_clientSecret :: string
  pd_amount :: number
  pd_status :: string

definition log_call :: "stripe_call \<Rightarrow> state \<Rightarrow> state" where
  "log_call c s = s\<lparr>stripe_calls := stripe_calls s @ [c]\<rparr>"

text \<open>
  \<^verbatim>\<open>PaymentService.createPaymentIntent\<close>. \<^verbatim>\<open>Math.round\<close> rounds halves up, as \<open>round\<close>
  does. \<open>response\<close> is what \<^verbatim>\<open>stripe.paymentIntents.create\<close> answers; \<open>transactionId\<close>
  is the \<^verbatim>\<open>uuidv4()\<close>. The \<^verbatim>\<open>catch\<close> rethrows with a prefix.
\<close>

definition createPaymentIntent ::
  "state \<Rightarrow> timestamp \<Rightarrow> uuid \<Rightarrow> (string + payment_intent) \<Rightarrow>
   uuid \<Rightarrow> number \<Rightarrow> uuid \<Rightarrow> uuid \<Rightarrow> (string + payment_data) \<times> state" where
  "createPaymentIntent s now transactionId response matchId amount requesterId providerId =
    (let s1 = log_call (PaymentIntentsCreate (round (amount * 100)) ''usd''
                          matchId requesterId providerId) s
     in case response of
          Inl message \<Rightarrow> (Inl (''Payment intent creation failed: '' @ message), s1)
        | Inr paymentIntent \<Rightarrow>
           if transactions s1 transactionId \<noteq> None
           then (Inl (''Payment intent creation failed: ''
                      @ ''duplicate key value violates unique constraint \"transactions_pkey\"''), s1)
           else let row = \<lparr>t_match_id = matchId, t_requester_id = requesterId,
                             t_provider_id = providerId, t_amount = amount,
                             t_currency = ''USD'', t_status = ''pending'',
                             t_payment_method = Some ''stripe'', t_transaction_hash = None,
                             t_created_at = now, t_updated_at = now\<rparr>;
                    s2 = s1\<lparr>transactions := (transactions s1)(transactionId \<mapsto> row)\<rparr>
                in (Inr \<lparr>pd_transactionId = transactionId,
                         pd_paymentIntentId = pi_id paymentIntent,
                         pd_clientSecret = pi_client_secret paymentIntent,
                         pd_amount = amount, pd_status = ''pending''\<rparr>, s2))"

text \<open>
  \<^verbatim>\<open>PaymentService.confirmPayment\<close>; \<open>response\<close> is what
  \<^verbatim>\<open>stripe.paymentIntents.retrieve\<close> answers.
\<close>

definition confirmPayment ::
  "state \<Rightarrow> timestamp \<Rightarrow> (string + payment_intent) \<Rightarrow> string \<Rightarrow> uuid \<Rightarrow>
   (string + transaction) \<times> state" where
  "confirmPayment s now response paymentIntentId transactionId =
    (let s1 = log_call (PaymentIntentsRetrieve paymentIntentId) s
     in case response of
          Inl message \<Rightarrow> (Inl (''Payment confirmation failed: '' @ message), s1)
        | Inr paymentIntent \<Rightarrow>
           if pi_status paymentIntent \<noteq> ''succeeded''
           then (Inl (''Payment confirmation failed: '' @ ''Payment not succeeded. Status: ''
                      @ pi_status paymentIntent), s1)
           else (case transactions s1 transactionId of
                   None \<Rightarrow> (Inl (''Payment confirmation failed: '' @ ''Transaction not found''), s1)
                 | Some t \<Rightarrow>
                    (let t' = t\<lparr>t_status := ''escrowed'',
                                 t_transaction_hash := Some (pi_id paymentIntent),
                                 t_updated_at := now\<rparr>
                     in (Inr t', s1\<lparr>transactions := (transactions s1)(transactionId \<mapsto> t')\<rparr>))))"

text \<open>
  \<^verbatim>\<open>PaymentService.releasePayment\<close>; \<open>response\<close> is what \<^verbatim>\<open>stripe.refunds.create\<close>
  answers, should the refund branch call it.
\<close>

definition releasePayment ::
  "state \<Rightarrow> timestamp \<Rightarrow> (string + unit) \<Rightarrow> uuid \<Rightarrow> bool \<Rightarrow> (string + transaction) \<times> state" where
  "releasePayment s now response transactionId verified =
    (if \<not> verified then
       (case transactions s transactionId of
          None \<Rightarrow> (Inl (''Payment release failed: '' @ ''Transaction not found''), s)
        | Some t \<Rightarrow>
           (let paymentIntentId = t_transaction_hash t;
                s1 = log_call (RefundsCreate paymentIntentId) s
            in case response of
                 Inl message \<Rightarrow> (Inl (''Payment release failed: '' @ message), s1)
               | Inr u \<Rightarrow>
                  (let t' = t\<lparr>t_status := ''refunded'', t_updated_at := now\<rparr>
                   in (Inr t', s1\<lparr>transactions := (transactions s1)(transactionId \<mapsto> t')\<rparr>))))
     else
       (case transactions s transactionId of
          None \<Rightarrow> (Inl (''Payment release failed: '' @ ''Transaction not found''), s)
        | Some t \<Rightarrow>
           (let t' = t\<lparr>t_status := ''settled'', t_updated_at := now\<rparr>
            in (Inr t', s\<lparr>transactions := (transactions s)(transactionId \<mapsto> t')\<rparr>))))"

text \<open>
  The handler of \<^verbatim>\<open>POST /api/v1/payments/create-intent\<close>, the caller of
  \<^verbatim>\<open>createPaymentIntent\<close>: the status code and the error or data of its response.
  \<open>agentId\<close> is the authenticated caller; an absent body field is \<open>None\<close>, and
  \<^verbatim>\<open>!amount\<close> is also true of 0.
\<close>

definition match_for_payment :: "state \<Rightarrow> uuid \<Rightarrow> (match \<times> uuid) option" where
  "match_for_payment s matchId =
    (case matches s matchId of
       None \<Rightarrow> None
     | Some m \<Rightarrow>
        (case compute_requests s (m_request_id m) of
           None \<Rightarrow> None
         | Some cr \<Rightarrow>
            (case find (\<lambda>pc. Some (pc_id pc) = m_capability_id m) (provider_capabilities s) of
               None \<Rightarrow> None
             | Some pc \<Rightarrow> Some (m, cr_requester_id cr))))"

definition create_intent_route ::
  "state \<Rightarrow> timestamp \<Rightarrow> uuid \<Rightarrow> (string + payment_intent) \<Rightarrow>
   uuid \<Rightarrow> uuid option \<Rightarrow> number option \<Rightarrow> (nat \<times> (string + payment_data)) \<times> state" where
  "create_intent_route s now transactionId response agentId matchId amount =
    (case (matchId, amount) of
       (Some matchId', Some amount') \<Rightarrow>
         if matchId' = [] \<or> amount' = 0
         then ((400, Inl ''Missing required fields: matchId, amount''), s)
         else if amount' \<le> 0
         then ((400, Inl ''Amount must be greater than 0''), s)
         else (case match_for_payment s matchId' of
                 None \<Rightarrow> ((404, Inl ''Match not found''), s)
               | Some (match', requester_id) \<Rightarrow>
                  if requester_id \<noteq> agentId
                  then ((403, Inl ''Only the requester can create payment for this match''), s)
                  else (case createPaymentIntent s now transactionId response matchId' amount'
                               requester_id (m_provider_id match') of
                          (Inr paymentData, s1) \<Rightarrow> ((201, Inr paymentData), s1)
                        | (Inl message, s1) \<Rightarrow> ((500, Inl message), s1)))
     | _ \<Rightarrow> ((400, Inl ''Missing required fields: matchId, amount''), s))"

section \<open>Verification\<close>



text \<open>
  \<^verbatim>\<open>VerificationService.verifyWork\<close>. An \<^verbatim>\<open>UPDATE\<close> whose \<^verbatim>\<open>WHERE\<close> finds no row changes
  nothing.
\<close>

definition set_transaction_status :: "state \<Rightarrow> timestamp \<Rightarrow> uuid \<Rightarrow> string \<Rightarrow> state" where
  "set_transaction_status s now id' v =
    (case transactions s id' of
       None \<Rightarrow> s
     | Some t \<Rightarrow> s\<lparr>transactions := (transactions s)(id' \<mapsto> t\<lparr>t_status := v, t_updated_at := now\<rparr>)\<rparr>)"

definition set_match_status :: "state \<Rightarrow> timestamp \<Rightarrow> uuid \<Rightarrow> string \<Rightarrow> state" where
  "set_match_status s now id' v =
    (case matches s id' of
       None \<Rightarrow> s
     | Some m \<Rightarrow> s\<lparr>matches := (matches s)(id' \<mapsto> m\<lparr>m_status := v, m_updated_at := now\<rparr>)\<rparr>)"

definition verifyWork ::
  "state \<Rightarrow> timestamp \<Rightarrow> uuid \<Rightarrow> uuid \<Rightarrow> bool \<Rightarrow> string \<Rightarrow> (string + verification) \<times> state" where
  "verifyWork s now verificationId verifierId approved notes =
    (case verifications s verificationId of
       None \<Rightarrow> (Inl (''Work verification failed: '' @ ''Verification not found''), s)
     | Some verif \<Rightarrow>
        (let result = verif\<lparr>v_verified := approved, v_verifier_id := Some verifierId,
                            v_notes := Some notes, v_updated_at := now\<rparr>;
             s1 = s\<lparr>verifications := (verifications s)(verificationId \<mapsto> result)\<rparr>
         in if approved then
              (let s2 = set_transaction_status s1 now (v_transaction_id verif) ''verified''
               in case transactions s2 (v_transaction_id verif) of
                    None \<Rightarrow> (Inr result, s2)
                  | Some transaction' \<Rightarrow>
                     (Inr result, set_match_status s2 now (t_match_id transaction') ''completed''))
            else (Inr result, s1)))"

section \<open>The score as the specification words it\<close>

text \<open>
  The specification's formula, for comparison with \<^verbatim>\<open>calculateMatchScore\<close>: baseline 100;
  GPU count sufficient +20, else -30; price within the ceiling
  \<open>(1 - price / ceiling) * 20\<close>, else -40; available hours sufficient +15, else -20;
  twice the reputation, 5 standing in for an absent one; floored at 0.
\<close>

definition spec_match_score :: "request \<Rightarrow> 'a provider_scheme \<Rightarrow> number" where
  "spec_match_score request capability =
    max 0
      (100
       + (if pc_gpu_count capability \<ge> gpu_count request then 20 else - 30)
       + (if pc_price_per_hour capability \<le> max_price_per_hour request
          then (1 - pc_price_per_hour capability / max_price_per_hour request) * 20
          else - 40)
       + (if pc_available_hours capability \<ge> duration_hours request then 15 else - 20)
       + (case reputation_score capability of None \<Rightarrow> 5 | Some r \<Rightarrow> r) * 2)"

section \<open>A sample marketplace\<close>

text \<open>
  One requester, two providers with an H100 offer each, a request for eight H100 for two
  hours at up to 50 per hour, its match with the first provider, the transaction of that
  match and a submitted proof. The statuses of the match and of the transaction are
  arguments.
\<close>

definition sample_agents :: "uuid \<rightharpoonup> agent" where
  "sample_agents =
    [''requester-1'' \<mapsto> \<lparr>a_name = ''Rita'', a_type = ''requester'',
                           a_reputation_score = Some 5, a_uptime_percentage = Some 100\<rparr>,
     ''provider-1'' \<mapsto> \<lparr>a_name = ''Paul'', a_type = ''provider'',
                          a_reputation_score = Some (24 / 5), a_uptime_percentage = Some 100\<rparr>,
     ''provider-2'' \<mapsto> \<lparr>a_name = ''Petra'', a_type = ''provider'',
                          a_reputation_score = Some 5, a_uptime_percentage = Some 100\<rparr>]"

definition capability_A :: capability where
  "capability_A =
    \<lparr>pc_id = ''cap-a'', pc_provider_id = ''provider-1'', pc_gpu_count = 8,
     pc_gpu_type = ''H100'', pc_cpu_cores = 64, pc_memory_gb = 512,
     pc_price_per_hour = 91 / 2, pc_available_hours = 100,
     pc_region = Some ''us-east-1'', pc_availability_status = ''available'',
     pc_created_at = 1, pc_updated_at = 1\<rparr>"

definition capability_B :: capability where
  "capability_B =
    \<lparr>pc_id = ''cap-b'', pc_provider_id = ''provider-2'', pc_gpu_count = 8,
     pc_gpu_type = ''H100'', pc_cpu_cores = 64, pc_memory_gb = 512,
     pc_price_per_hour = 49, pc_available_hours = 1,
     pc_region = Some ''us-east-1'', pc_availability_status = ''available'',
     pc_created_at = 2, pc_updated_at = 2\<rparr>"

definition sample_request :: request where
  "sample_request =
    \<lparr>gpu_count = 8, gpu_type = ''H100'', duration_hours = 2,
     max_price_per_hour = 50, region = None\<rparr>"

definition sample_request_row :: "string \<Rightarrow> compute_request" where
  "sample_request_row status =
    \<lparr>cr_requester_id = ''requester-1'', cr_gpu_count = 8, cr_gpu_type = ''H100'',
     cr_cpu_cores = None, cr_memory_gb = None, cr_duration_hours = 2,
     cr_max_price_per_hour = 50, cr_status = status, cr_description = None,
     cr_created_at = 3, cr_updated_at = 3\<rparr>"

definition sample_match :: "string \<Rightarrow> match" where
  "sample_match status =
    \<lparr>m_request_id = ''request-1'', m_provider_id = ''provider-1'',
     m_capability_id = Some ''cap-a'', m_agreed_price_per_hour = 91 / 2,
     m_status = status, m_start_time = None, m_end_time = None,
     m_created_at = 4, m_updated_at = 4\<rparr>"

definition sample_transaction :: "string \<Rightarrow> transaction" where
  "sample_transaction status =
    \<lparr>t_match_id = ''match-1'', t_requester_id = ''requester-1'',
     t_provider_id = ''provider-1'', t_amount = 91, t_currency = ''USD'',
     t_status = status, t_payment_method = Some ''stripe'',
     t_transaction_hash = Some ''pi_1'', t_created_at = 5, t_updated_at = 5\<rparr>"

definition sample_verification :: verification where
  "sample_verification =
    \<lparr>v_transaction_id = ''tx-1'', v_verifier_id = Some ''provider-1'',
     v_proof_hash = Some ''abc'', v_proof_data = Some ''{}'', v_verified = False,
     v_notes = None, v_created_at = 6, v_updated_at = 6\<rparr>"

definition sample_state :: "string \<Rightarrow> string \<Rightarrow> string \<Rightarrow> state" where
  "sample_state request_status match_status transaction_status =
    \<lparr>agents = sample_agents,
     provider_capabilities = [capability_A, capability_B],
     compute_requests = [''request-1'' \<mapsto> sample_request_row request_status],
     matches = [''match-1'' \<mapsto> sample_match match_status],
     transactions = [''tx-1'' \<mapsto> sample_transaction transaction_status],
     verifications = [''ver-1'' \<mapsto> sample_verification],
     stripe_calls = []\<rparr>"

text \<open>The same marketplace with the first offer busy and the second priced beyond the request.\<close>

definition sample_state_no_offer :: state where
  "sample_state_no_offer =
    (sample_state ''pending'' ''cancelled'' ''refunded'')
      \<lparr>provider_capabilities :=
         [capability_A\<lparr>pc_availability_status := ''busy''\<rparr>,
          capability_B\<lparr>pc_price_per_hour := 60\<rparr>]\<rparr>"

section \<open>Properties of the match lifecycle\<close>

lemma Match_update_found:
  "matches s i = Some m \<Longrightarrow> us \<noteq> [] \<Longrightarrow>
   Match_update s now i us =
     (Some ((fold set_match_field us m)\<lparr>m_updated_at := now\<rparr>),
      s\<lparr>matches := (matches s)(i \<mapsto> (fold set_match_field us m)\<lparr>m_updated_at := now\<rparr>)\<rparr>)"
  by (simp add: Match_update_def Let_def)

lemma Match_findById_SomeD:
  "Match_findById s i = Some m \<Longrightarrow>
   matches s i = Some m \<and> compute_requests s (m_request_id m) \<noteq> None
   \<and> agents s (m_provider_id m) \<noteq> None"
  by (auto simp: Match_findById_def split: option.splits)

lemma sample_findById:
  "Match_findById (sample_state rs ms ts) ''match-1'' = Some (sample_match ms)"
  by (simp add: Match_findById_def sample_state_def sample_match_def sample_agents_def)

text \<open>
  Claim C8. For a match that \<^verbatim>\<open>Match.findById\<close> finds and any caller at all,
  \<^verbatim>\<open>cancelMatch\<close> succeeds and returns the row with status \<^verbatim>\<open>'cancelled'\<close>; the only
  change to the store is that row, so the parent request keeps the status it had.
\<close>

theorem cancelMatch_any_caller:
  assumes "Match_findById s matchId = Some m"
  shows "cancelMatch s now matchId agentId =
           (Inr (Some (m\<lparr>m_status := ''cancelled'', m_updated_at := now\<rparr>)),
            s\<lparr>matches := (matches s)(matchId \<mapsto>
                 m\<lparr>m_status := ''cancelled'', m_updated_at := now\<rparr>)\<rparr>)
         \<and> compute_requests (snd (cancelMatch s now matchId agentId)) = compute_requests s"
proof -
  from assms have "matches s matchId = Some m"
    by (simp add: Match_findById_SomeD)
  then show ?thesis
    using assms by (simp add: cancelMatch_def Match_update_found)
qed

text \<open>
  A caller who is neither the provider nor the requester cancels an accepted match of the
  sample marketplace; the request stays \<^verbatim>\<open>'in_progress'\<close>.
\<close>

theorem cancelMatch_any_caller_witness:
  "Match_findById (sample_state ''in_progress'' ''accepted'' ''escrowed'') ''match-1''
     = Some (sample_match ''accepted'')
   \<and> fst (cancelMatch (sample_state ''in_progress'' ''accepted'' ''escrowed'') 9
            ''match-1'' ''stranger'')
     = Inr (Some ((sample_match ''accepted'')\<lparr>m_status := ''cancelled'', m_updated_at := 9\<rparr>))
   \<and> map_option cr_status
        (compute_requests
          (snd (cancelMatch (sample_state ''in_progress'' ''accepted'' ''escrowed'') 9
                 ''match-1'' ''stranger'')) ''request-1'')
     = Some ''in_progress''"
  using cancelMatch_any_caller [OF sample_findById,
          of "''in_progress''" "''accepted''" "''escrowed''" 9 "''stranger''"]
  by (simp add: sample_state_def sample_request_row_def Match_findById_def
        sample_match_def sample_agents_def)







section \<open>Properties of discovery\<close>

lemma join_agent_Some:
  "join_agent s pc = Some p \<longleftrightarrow>
     (\<exists>a. agents s (pc_provider_id pc) = Some a \<and>
          p = capability.extend pc (provider.fields (a_reputation_score a) (a_uptime_percentage a)))"
  by (auto simp: join_agent_def split: option.splits)

lemma truncate_extend:
  "capability.truncate (capability.extend pc ext) = pc"
  by (simp add: capability.defs)

lemma extend_fields:
  "pc_gpu_count (capability.extend pc ext) = pc_gpu_count pc"
  "pc_gpu_type (capability.extend pc ext) = pc_gpu_type pc"
  "pc_price_per_hour (capability.extend pc ext) = pc_price_per_hour pc"
  "pc_availability_status (capability.extend pc ext) = pc_availability_status pc"
  "pc_region (capability.extend pc ext) = pc_region pc"
  by (simp_all add: capability.defs)


lemma set_map_filter_eq:
  "set (List.map_filter f xs) = {y. \<exists>x \<in> set xs. f x = Some y}"
  by (induction xs) (auto split: option.splits)

text \<open>The rows \<^verbatim>\<open>search\<close> returns are the joined rows that satisfy its \<^verbatim>\<open>WHERE\<close> clause.\<close>

lemma set_search:
  "set (search s gpuCount gpuType maxPrice rg) =
     {p. \<exists>pc \<in> set (provider_capabilities s). join_agent s pc = Some p
          \<and> pc_gpu_count p \<ge> gpuCount \<and> pc_gpu_type p = gpuType
          \<and> pc_price_per_hour p \<le> maxPrice
          \<and> pc_availability_status p = ''available''
          \<and> (truthy rg \<longrightarrow> pc_region p = rg)}"
  by (auto simp: search_def Let_def set_map_filter_eq)



lemma truthy_or_null: "truthy (or_null v) = truthy v"
  by (simp add: or_null_def truthy_def)

lemma or_null_truthy: "truthy v \<Longrightarrow> or_null v = v"
  by (simp add: or_null_def)

lemma truncate_search_iff:
  "pc \<in> capability.truncate ` set (search s (gpu_count request) (gpu_type request)
            (max_price_per_hour request) (or_null (region request)))
   \<longleftrightarrow> pc \<in> set (provider_capabilities s)
       \<and> agents s (pc_provider_id pc) \<noteq> None
       \<and> pc_availability_status pc = ''available''
       \<and> pc_gpu_type pc = gpu_type request
       \<and> pc_gpu_count pc \<ge> gpu_count request
       \<and> pc_price_per_hour pc \<le> max_price_per_hour request
       \<and> (\<not> truthy (region request) \<or> pc_region pc = region request)"
  (is "?L \<longleftrightarrow> ?R")
proof
  assume ?L
  then obtain p pc' where p: "pc = capability.truncate p" "pc' \<in> set (provider_capabilities s)"
      "join_agent s pc' = Some p" "pc_gpu_count p \<ge> gpu_count request"
      "pc_gpu_type p = gpu_type request" "pc_price_per_hour p \<le> max_price_per_hour request"
      "pc_availability_status p = ''available''"
      "truthy (region request) \<longrightarrow> pc_region p = region request"
    by (auto simp: set_search truthy_or_null or_null_truthy)
  from p(3) obtain a where a: "agents s (pc_provider_id pc') = Some a"
      "p = capability.extend pc' (provider.fields (a_reputation_score a) (a_uptime_percentage a))"
    by (auto simp: join_agent_Some)
  from p(1) a(2) have "pc = pc'" by (simp add: truncate_extend)
  with p a show ?R by (auto simp: extend_fields)
next
  assume r: ?R
  then obtain a where a: "agents s (pc_provider_id pc) = Some a" by auto
  define p where "p = capability.extend pc
      (provider.fields (a_reputation_score a) (a_uptime_percentage a))"
  have "join_agent s pc = Some p"
    using a by (simp add: join_agent_Some p_def)
  moreover have "capability.truncate p = pc"
    by (simp add: p_def truncate_extend)
  ultimately have "p \<in> set (search s (gpu_count request) (gpu_type request)
            (max_price_per_hour request) (or_null (region request)))"
    using r by (auto simp: set_search truthy_or_null or_null_truthy p_def extend_fields)
  with \<open>capability.truncate p = pc\<close> show ?L by force
qed

text \<open>\<^verbatim>\<open>slice(0, limit)\<close> keeps at most \<open>limit\<close> rows.\<close>

lemma length_findMatches: "length (findMatches s request limit) \<le> limit"
  by (simp add: findMatches_def Let_def)



lemma sample_scores:
  "calculateMatchScore sample_request
     (capability.extend capability_A (provider.fields (Some (24 / 5)) (Some 100))) = Some (732 / 5)"
  "calculateMatchScore sample_request
     (capability.extend capability_B (provider.fields (Some 5) (Some 100))) = Some (552 / 5)"
  by (simp_all add: calculateMatchScore_def sample_request_def or_default_def
        capability_A_def capability_B_def capability.defs provider.defs)





lemma findMatches_no_rows:
  assumes "search s (gpu_count request) (gpu_type request) (max_price_per_hour request)
             (or_null (region request)) = []"
  shows "findMatches s request limit = []"
  using assms by (simp add: findMatches_def)

lemma search_no_rows:
  assumes "\<forall>pc \<in> set (provider_capabilities s).
           \<not> (pc_availability_status pc = ''available''
              \<and> pc_gpu_type pc = gpu_type request
              \<and> pc_gpu_count pc \<ge> gpu_count request
              \<and> pc_price_per_hour pc \<le> max_price_per_hour request)"
  shows "search s (gpu_count request) (gpu_type request) (max_price_per_hour request)
             (or_null (region request)) = []"
proof (rule ccontr)
  assume "search s (gpu_count request) (gpu_type request) (max_price_per_hour request)
             (or_null (region request)) \<noteq> []"
  then obtain p where "p \<in> set (search s (gpu_count request) (gpu_type request)
          (max_price_per_hour request) (or_null (region request)))"
    by (meson last_in_set)
  then have "capability.truncate p \<in> capability.truncate ` set (search s (gpu_count request)
          (gpu_type request) (max_price_per_hour request) (or_null (region request)))"
    by (rule imageI)
  then have "capability.truncate p \<in> set (provider_capabilities s)
        \<and> pc_availability_status (capability.truncate p) = ''available''
        \<and> pc_gpu_type (capability.truncate p) = gpu_type request
        \<and> pc_gpu_count (capability.truncate p) \<ge> gpu_count request
        \<and> pc_price_per_hour (capability.truncate p) \<le> max_price_per_hour request"
    unfolding truncate_search_iff by blast
  with assms show False by blast
qed


text \<open>
  Claim C7. For a request row that exists, when no capability is available with the
  requested GPU type, at least the requested GPU count and a price within the ceiling
  (a request row carries no region), \<^verbatim>\<open>autoMatch\<close> returns \<^verbatim>\<open>null\<close> and the store is
  exactly as before: no match row is created and the request keeps its status.
\<close>

theorem autoMatch_no_candidate:
  assumes "ComputeRequest_findById s requestId = Some r"
    and "\<forall>pc \<in> set (provider_capabilities s).
           \<not> (pc_availability_status pc = ''available''
              \<and> pc_gpu_type pc = cr_gpu_type r
              \<and> pc_gpu_count pc \<ge> cr_gpu_count r
              \<and> pc_price_per_hour pc \<le> cr_max_price_per_hour r)"
  shows "autoMatch s now newId requestId = (Inr None, s)"
proof -
  have "findMatches s (request_of_row r) 1 = []"
  proof (rule findMatches_no_rows, rule search_no_rows)
    show "\<forall>pc \<in> set (provider_capabilities s).
           \<not> (pc_availability_status pc = ''available''
              \<and> pc_gpu_type pc = gpu_type (request_of_row r)
              \<and> pc_gpu_count pc \<ge> gpu_count (request_of_row r)
              \<and> pc_price_per_hour pc \<le> max_price_per_hour (request_of_row r))"
      using assms(2) by (simp add: request_of_row_def)
  qed
  then show ?thesis
    using assms(1) by (simp add: autoMatch_def)
qed

text \<open>The pending request of the marketplace without a fitting offer.\<close>

theorem autoMatch_no_candidate_witness:
  "ComputeRequest_findById sample_state_no_offer ''request-1'' = Some (sample_request_row ''pending'')
   \<and> autoMatch sample_state_no_offer 9 ''match-2'' ''request-1'' = (Inr None, sample_state_no_offer)
   \<and> map_option cr_status (compute_requests (snd (autoMatch sample_state_no_offer 9 ''match-2''
        ''request-1'')) ''request-1'') = Some ''pending''
   \<and> dom (matches (snd (autoMatch sample_state_no_offer 9 ''match-2'' ''request-1'')))
        = {''match-1''}"
proof -
  have found: "ComputeRequest_findById sample_state_no_offer ''request-1''
      = Some (sample_request_row ''pending'')"
    by (simp add: ComputeRequest_findById_def sample_state_no_offer_def sample_state_def)
  have none: "\<forall>pc \<in> set (provider_capabilities sample_state_no_offer).
           \<not> (pc_availability_status pc = ''available''
              \<and> pc_gpu_type pc = cr_gpu_type (sample_request_row ''pending'')
              \<and> pc_gpu_count pc \<ge> cr_gpu_count (sample_request_row ''pending'')
              \<and> pc_price_per_hour pc \<le> cr_max_price_per_hour (sample_request_row ''pending''))"
    by (simp add: sample_state_no_offer_def sample_state_def sample_request_row_def
          capability_A_def capability_B_def)
  have "autoMatch sample_state_no_offer 9 ''match-2'' ''request-1'' = (Inr None, sample_state_no_offer)"
    by (rule autoMatch_no_candidate [OF found none])
  then show ?thesis
    using found
    by (simp add: sample_state_no_offer_def sample_state_def sample_request_row_def)
qed

section \<open>Properties of the score\<close>

text \<open>
  Wherever the division is defined and the reputation is absent or not 0,
  \<^verbatim>\<open>calculateMatchScore\<close> computes the specification's formula.
\<close>

lemma calculateMatchScore_formula:
  assumes "reputation_score capability \<noteq> Some 0"
    and "pc_price_per_hour capability \<le> max_price_per_hour request
           \<longrightarrow> max_price_per_hour request \<noteq> 0"
  shows "calculateMatchScore request capability = Some (spec_match_score request capability)"
  using assms
  by (auto simp: calculateMatchScore_def spec_match_score_def or_default_def Let_def
        split: option.splits)

text \<open>The scenario of the specification: capability A scores 146.4 for the sample request.\<close>

lemma calculateMatchScore_scenario:
  "calculateMatchScore sample_request
     (capability.extend capability_A (provider.fields (Some (24 / 5)) (Some 100)))
   = Some (1464 / 10)"
  by (simp add: sample_scores)

text \<open>
  Claim C4, at a reputation of 0. The claim adds twice the reputation and takes 5 only for
  an absent one, so capability A with reputation 0 is to score
  100 + 20 + 1.8 + 15 + 0 = 136.8. \<^verbatim>\<open>(capability.reputation_score || 5) * 2\<close> takes the 5
  for 0 as well, and \<^verbatim>\<open>calculateMatchScore\<close> returns 146.8.
\<close>

theorem calculateMatchScore_zero_reputation:
  "calculateMatchScore sample_request
     (capability.extend capability_A (provider.fields (Some 0) (Some 100)))
     = Some (1468 / 10)
   \<and> spec_match_score sample_request
     (capability.extend capability_A (provider.fields (Some 0) (Some 100)))
     = 1368 / 10"
  by (simp add: calculateMatchScore_def spec_match_score_def or_default_def sample_request_def
        capability_A_def capability.defs provider.defs)

section \<open>Properties of payment and escrow\<close>

lemma createPaymentIntent_ok:
  assumes "transactions s transactionId = None"
  shows "createPaymentIntent s now transactionId (Inr intent) matchId amount requesterId providerId =
     (Inr \<lparr>pd_transactionId = transactionId, pd_paymentIntentId = pi_id intent,
           pd_clientSecret = pi_client_secret intent, pd_amount = amount,
           pd_status = ''pending''\<rparr>,
      s\<lparr>transactions := (transactions s)(transactionId \<mapsto>
            \<lparr>t_match_id = matchId, t_requester_id = requesterId, t_provider_id = providerId,
             t_amount = amount, t_currency = ''USD'', t_status = ''pending'',
             t_payment_method = Some ''stripe'', t_transaction_hash = None,
             t_created_at = now, t_updated_at = now\<rparr>),
         stripe_calls := stripe_calls s @ [PaymentIntentsCreate (round (amount * 100)) ''usd''
            matchId requesterId providerId]\<rparr>)"
  using assms by (simp add: createPaymentIntent_def log_call_def Let_def)

lemma confirmPayment_ok:
  assumes "transactions s transactionId = Some t" and "pi_status intent = ''succeeded''"
  shows "confirmPayment s now (Inr intent) paymentIntentId transactionId =
     (Inr (t\<lparr>t_status := ''escrowed'', t_transaction_hash := Some (pi_id intent),
              t_updated_at := now\<rparr>),
      s\<lparr>transactions := (transactions s)(transactionId \<mapsto>
            t\<lparr>t_status := ''escrowed'', t_transaction_hash := Some (pi_id intent),
              t_updated_at := now\<rparr>),
         stripe_calls := stripe_calls s @ [PaymentIntentsRetrieve paymentIntentId]\<rparr>)"
  using assms by (simp add: confirmPayment_def log_call_def Let_def)

lemma releasePayment_settle:
  assumes "transactions s transactionId = Some t"
  shows "releasePayment s now response transactionId True =
     (Inr (t\<lparr>t_status := ''settled'', t_updated_at := now\<rparr>),
      s\<lparr>transactions := (transactions s)(transactionId \<mapsto>
            t\<lparr>t_status := ''settled'', t_updated_at := now\<rparr>)\<rparr>)"
  using assms by (simp add: releasePayment_def Let_def)

lemma releasePayment_refund:
  assumes "transactions s transactionId = Some t"
  shows "releasePayment s now (Inr u) transactionId False =
     (Inr (t\<lparr>t_status := ''refunded'', t_updated_at := now\<rparr>),
      s\<lparr>transactions := (transactions s)(transactionId \<mapsto>
            t\<lparr>t_status := ''refunded'', t_updated_at := now\<rparr>),
         stripe_calls := stripe_calls s @ [RefundsCreate (t_transaction_hash t)]\<rparr>)"
  using assms by (simp add: releasePayment_def log_call_def Let_def)

text \<open>
  Claim C2. With a fresh transaction id, a processor that creates the intent and then
  reports it as succeeded: \<^verbatim>\<open>createPaymentIntent\<close> succeeds and leaves the transaction
  \<^verbatim>\<open>'pending'\<close>, \<^verbatim>\<open>confirmPayment\<close> then succeeds and leaves it \<^verbatim>\<open>'escrowed'\<close>, and
  \<^verbatim>\<open>releasePayment\<close> with \<^verbatim>\<open>verified = true\<close> then succeeds and leaves it \<^verbatim>\<open>'settled'\<close>,
  with no refund requested. And for an escrowed transaction whose refund the processor
  accepts, \<^verbatim>\<open>releasePayment\<close> with \<^verbatim>\<open>verified = false\<close> succeeds, leaves the transaction
  \<^verbatim>\<open>'refunded'\<close> and sends the processor exactly one request, the refund of the stored
  reference.
\<close>

theorem escrow_round_trip:
  assumes "transactions s transactionId = None"
    and "pi_status confirmed = ''succeeded''"
  shows "(\<exists>d t2 t3 s1 s2 s3.
            createPaymentIntent s now transactionId (Inr intent) matchId amount
              requesterId providerId = (Inr d, s1)
          \<and> map_option t_status (transactions s1 transactionId) = Some ''pending''
          \<and> confirmPayment s1 now' (Inr confirmed) (pd_paymentIntentId d) transactionId
              = (Inr t2, s2)
          \<and> map_option t_status (transactions s2 transactionId) = Some ''escrowed''
          \<and> releasePayment s2 now'' response transactionId True = (Inr t3, s3)
          \<and> map_option t_status (transactions s3 transactionId) = Some ''settled''
          \<and> stripe_calls s3 = stripe_calls s @
               [PaymentIntentsCreate (round (amount * 100)) ''usd'' matchId requesterId providerId,
                PaymentIntentsRetrieve (pi_id intent)])
       \<and> (\<forall>q i t. transactions q i = Some t \<and> t_status t = ''escrowed'' \<longrightarrow>
            (\<exists>t' q'. releasePayment q now'' (Inr ()) i False = (Inr t', q')
               \<and> t_status t' = ''refunded''
               \<and> map_option t_status (transactions q' i) = Some ''refunded''
               \<and> stripe_calls q' = stripe_calls q @ [RefundsCreate (t_transaction_hash t)]))"
proof (intro conjI allI impI)
  let ?row = "\<lparr>t_match_id = matchId, t_requester_id = requesterId, t_provider_id = providerId,
             t_amount = amount, t_currency = ''USD'', t_status = ''pending'',
             t_payment_method = Some ''stripe'', t_transaction_hash = None,
             t_created_at = now, t_updated_at = now\<rparr>"
  let ?s1 = "s\<lparr>transactions := (transactions s)(transactionId \<mapsto> ?row),
         stripe_calls := stripe_calls s @ [PaymentIntentsCreate (round (amount * 100)) ''usd''
            matchId requesterId providerId]\<rparr>"
  let ?t2 = "?row\<lparr>t_status := ''escrowed'', t_transaction_hash := Some (pi_id confirmed),
              t_updated_at := now'\<rparr>"
  let ?s2 = "?s1\<lparr>transactions := (transactions ?s1)(transactionId \<mapsto> ?t2),
         stripe_calls := stripe_calls ?s1 @ [PaymentIntentsRetrieve (pi_id intent)]\<rparr>"
  have c1: "createPaymentIntent s now transactionId (Inr intent) matchId amount
              requesterId providerId
        = (Inr \<lparr>pd_transactionId = transactionId, pd_paymentIntentId = pi_id intent,
           pd_clientSecret = pi_client_secret intent, pd_amount = amount,
           pd_status = ''pending''\<rparr>, ?s1)"
    by (rule createPaymentIntent_ok [OF assms(1)])
  have c2: "confirmPayment ?s1 now' (Inr confirmed) (pi_id intent) transactionId = (Inr ?t2, ?s2)"
    by (rule confirmPayment_ok) (simp_all add: assms(2))
  have c3: "releasePayment ?s2 now'' response transactionId True
        = (Inr (?t2\<lparr>t_status := ''settled'', t_updated_at := now''\<rparr>),
           ?s2\<lparr>transactions := (transactions ?s2)(transactionId \<mapsto>
              ?t2\<lparr>t_status := ''settled'', t_updated_at := now''\<rparr>)\<rparr>)"
    by (rule releasePayment_settle) simp
  show "\<exists>d t2 t3 s1 s2 s3.
            createPaymentIntent s now transactionId (Inr intent) matchId amount
              requesterId providerId = (Inr d, s1)
          \<and> map_option t_status (transactions s1 transactionId) = Some ''pending''
          \<and> confirmPayment s1 now' (Inr confirmed) (pd_paymentIntentId d) transactionId
              = (Inr t2, s2)
          \<and> map_option t_status (transactions s2 transactionId) = Some ''escrowed''
          \<and> releasePayment s2 now'' response transactionId True = (Inr t3, s3)
          \<and> map_option t_status (transactions s3 transactionId) = Some ''settled''
          \<and> stripe_calls s3 = stripe_calls s @
               [PaymentIntentsCreate (round (amount * 100)) ''usd'' matchId requesterId providerId,
                PaymentIntentsRetrieve (pi_id intent)]"
    apply (rule exI, rule exI, rule exI, rule exI [of _ ?s1], rule exI [of _ ?s2], rule exI)
    apply (intro conjI)
          apply (rule c1)
         apply simp
        apply (simp only: payment_data.simps, rule c2)
       apply simp
      apply (rule c3)
     apply simp
    apply simp
    done
next
  fix q :: state and i :: uuid and t :: transaction
  assume "transactions q i = Some t \<and> t_status t = ''escrowed''"
  then have "releasePayment q now'' (Inr ()) i False =
     (Inr (t\<lparr>t_status := ''refunded'', t_updated_at := now''\<rparr>),
      q\<lparr>transactions := (transactions q)(i \<mapsto>
            t\<lparr>t_status := ''refunded'', t_updated_at := now''\<rparr>),
         stripe_calls := stripe_calls q @ [RefundsCreate (t_transaction_hash t)]\<rparr>)"
    by (simp add: releasePayment_refund)
  then show "\<exists>t' q'. releasePayment q now'' (Inr ()) i False = (Inr t', q')
               \<and> t_status t' = ''refunded''
               \<and> map_option t_status (transactions q' i) = Some ''refunded''
               \<and> stripe_calls q' = stripe_calls q @ [RefundsCreate (t_transaction_hash t)]"
    by simp
qed

text \<open>
  In the sample marketplace: a second transaction of 91 goes through the three steps, and
  the escrowed first transaction is refunded with one request for \<^verbatim>\<open>pi_1\<close>.
\<close>

theorem escrow_round_trip_witness:
  "transactions (sample_state ''in_progress'' ''accepted'' ''escrowed'') ''tx-2'' = None
   \<and> pi_status \<lparr>pi_id = ''pi_2'', pi_client_secret = ''secret'', pi_status = ''succeeded''\<rparr>
       = ''succeeded''
   \<and> (\<exists>d t2 t3 s1 s2 s3.
         createPaymentIntent (sample_state ''in_progress'' ''accepted'' ''escrowed'') 10 ''tx-2''
           (Inr \<lparr>pi_id = ''pi_2'', pi_client_secret = ''secret'',
                  pi_status = ''requires_payment_method''\<rparr>)
           ''match-1'' 91 ''requester-1'' ''provider-1'' = (Inr d, s1)
       \<and> map_option t_status (transactions s1 ''tx-2'') = Some ''pending''
       \<and> confirmPayment s1 11
           (Inr \<lparr>pi_id = ''pi_2'', pi_client_secret = ''secret'', pi_status = ''succeeded''\<rparr>)
           (pd_paymentIntentId d) ''tx-2'' = (Inr t2, s2)
       \<and> map_option t_status (transactions s2 ''tx-2'') = Some ''escrowed''
       \<and> releasePayment s2 12 (Inr ()) ''tx-2'' True = (Inr t3, s3)
       \<and> map_option t_status (transactions s3 ''tx-2'') = Some ''settled''
       \<and> stripe_calls s3 =
           [PaymentIntentsCreate 9100 ''usd'' ''match-1'' ''requester-1'' ''provider-1'',
            PaymentIntentsRetrieve ''pi_2''])
   \<and> transactions (sample_state ''in_progress'' ''accepted'' ''escrowed'') ''tx-1''
       = Some (sample_transaction ''escrowed'')
   \<and> t_status (sample_transaction ''escrowed'') = ''escrowed''
   \<and> (\<exists>t' q'. releasePayment (sample_state ''in_progress'' ''accepted'' ''escrowed'') 12
                  (Inr ()) ''tx-1'' False = (Inr t', q')
       \<and> t_status t' = ''refunded''
       \<and> map_option t_status (transactions q' ''tx-1'') = Some ''refunded''
       \<and> stripe_calls q' = [RefundsCreate (Some ''pi_1'')])"
proof -
  let ?s = "sample_state ''in_progress'' ''accepted'' ''escrowed''"
  have fresh: "transactions ?s ''tx-2'' = None"
    by (simp add: sample_state_def)
  have ok: "pi_status \<lparr>pi_id = ''pi_2'', pi_client_secret = ''secret'', pi_status = ''succeeded''\<rparr>
       = ''succeeded''"
    by simp
  have tx: "transactions ?s ''tx-1'' = Some (sample_transaction ''escrowed'')
      \<and> t_status (sample_transaction ''escrowed'') = ''escrowed''"
    by (simp add: sample_state_def sample_transaction_def)
  have calls: "stripe_calls ?s = []" "t_transaction_hash (sample_transaction ''escrowed'') = Some ''pi_1''"
    "round (91 * 100 :: rat) = 9100"
    by (simp_all add: sample_state_def sample_transaction_def)
  note inst = escrow_round_trip [where now = 10 and now' = 11 and now'' = 12
      and response = "Inr ()" and matchId = "''match-1''" and amount = 91
      and requesterId = "''requester-1''" and providerId = "''provider-1''"
      and intent = "\<lparr>pi_id = ''pi_2'', pi_client_secret = ''secret'',
                  pi_status = ''requires_payment_method''\<rparr>", OF fresh ok]
  from inst have part1: "\<exists>d t2 t3 s1 s2 s3.
         createPaymentIntent ?s 10 ''tx-2''
           (Inr \<lparr>pi_id = ''pi_2'', pi_client_secret = ''secret'',
                  pi_status = ''requires_payment_method''\<rparr>)
           ''match-1'' 91 ''requester-1'' ''provider-1'' = (Inr d, s1)
       \<and> map_option t_status (transactions s1 ''tx-2'') = Some ''pending''
       \<and> confirmPayment s1 11
           (Inr \<lparr>pi_id = ''pi_2'', pi_client_secret = ''secret'', pi_status = ''succeeded''\<rparr>)
           (pd_paymentIntentId d) ''tx-2'' = (Inr t2, s2)
       \<and> map_option t_status (transactions s2 ''tx-2'') = Some ''escrowed''
       \<and> releasePayment s2 12 (Inr ()) ''tx-2'' True = (Inr t3, s3)
       \<and> map_option t_status (transactions s3 ''tx-2'') = Some ''settled''
       \<and> stripe_calls s3 =
           [PaymentIntentsCreate 9100 ''usd'' ''match-1'' ''requester-1'' ''provider-1'',
            PaymentIntentsRetrieve ''pi_2'']"
    by (simp add: calls)
  from inst tx have part2: "\<exists>t' q'. releasePayment ?s 12 (Inr ()) ''tx-1'' False = (Inr t', q')
       \<and> t_status t' = ''refunded''
       \<and> map_option t_status (transactions q' ''tx-1'') = Some ''refunded''
       \<and> stripe_calls q' = stripe_calls ?s @ [RefundsCreate (t_transaction_hash (sample_transaction ''escrowed''))]"
    by blast
  show ?thesis
    using fresh ok tx part1 part2 by (simp add: calls)
qed

text \<open>
  Claim C6, as the code has it. The check for a non-positive amount is in the handler of
  \<^verbatim>\<open>POST /api/v1/payments/create-intent\<close>, not in \<^verbatim>\<open>PaymentService.createPaymentIntent\<close>:
  for an amount of 0 or less the handler answers 400 and the store and the processor log
  are as before, so the service is not called.
\<close>

theorem create_intent_route_rejects_nonpositive:
  assumes "amount \<le> 0"
  shows "fst (fst (create_intent_route s now transactionId response agentId matchId (Some amount)))
           = 400
       \<and> snd (create_intent_route s now transactionId response agentId matchId (Some amount)) = s"
  using assms by (cases matchId) (simp_all add: create_intent_route_def)

text \<open>The requester of the sample match asks for a payment of -5.\<close>

theorem create_intent_route_rejects_nonpositive_witness:
  "(- 5 :: number) \<le> 0
   \<and> create_intent_route (sample_state ''in_progress'' ''accepted'' ''escrowed'') 10 ''tx-2''
        (Inr \<lparr>pi_id = ''pi_2'', pi_client_secret = ''secret'',
               pi_status = ''requires_payment_method''\<rparr>)
        ''requester-1'' (Some ''match-1'') (Some (- 5))
      = ((400, Inl ''Amount must be greater than 0''),
         sample_state ''in_progress'' ''accepted'' ''escrowed'')"
proof -
  have neg: "(- 5 :: number) \<le> 0" by simp
  show ?thesis
    using neg create_intent_route_rejects_nonpositive [OF neg,
        of "sample_state ''in_progress'' ''accepted'' ''escrowed''" 10 "''tx-2''"
           "Inr \<lparr>pi_id = ''pi_2'', pi_client_secret = ''secret'',
               pi_status = ''requires_payment_method''\<rparr>"
           "''requester-1''" "Some ''match-1''"]
    by (simp add: create_intent_route_def)
qed

text \<open>
  Against claim C6 as stated: called with an amount of -5, \<^verbatim>\<open>createPaymentIntent\<close> sends
  the processor a request for -500 minor units whatever the answer will be, and when the
  processor answers with an intent it stores the \<^verbatim>\<open>'pending'\<close> row and returns
  successfully.
\<close>

theorem createPaymentIntent_nonpositive_counterexample:
  "(- 5 :: number) \<le> 0
   \<and> fst (createPaymentIntent (sample_state ''in_progress'' ''accepted'' ''escrowed'') 10 ''tx-2''
        (Inr \<lparr>pi_id = ''pi_2'', pi_client_secret = ''secret'',
               pi_status = ''requires_payment_method''\<rparr>)
        ''match-1'' (- 5) ''requester-1'' ''provider-1'')
      = Inr \<lparr>pd_transactionId = ''tx-2'', pd_paymentIntentId = ''pi_2'',
              pd_clientSecret = ''secret'', pd_amount = - 5, pd_status = ''pending''\<rparr>
   \<and> map_option t_status
        (transactions (snd (createPaymentIntent
           (sample_state ''in_progress'' ''accepted'' ''escrowed'') 10 ''tx-2''
           (Inr \<lparr>pi_id = ''pi_2'', pi_client_secret = ''secret'',
                  pi_status = ''requires_payment_method''\<rparr>)
           ''match-1'' (- 5) ''requester-1'' ''provider-1'')) ''tx-2'')
      = Some ''pending''
   \<and> stripe_calls (snd (createPaymentIntent
           (sample_state ''in_progress'' ''accepted'' ''escrowed'') 10 ''tx-2''
           (Inl ''Invalid positive integer'')
           ''match-1'' (- 5) ''requester-1'' ''provider-1''))
      = [PaymentIntentsCreate (- 500) ''usd'' ''match-1'' ''requester-1'' ''provider-1'']"
proof -
  have "round (- 5 * 100 :: rat) = - 500"
    using round_of_int [of "- 500", where ?'a = rat] by simp
  then show ?thesis
    by (simp add: createPaymentIntent_def log_call_def sample_state_def Let_def)
qed

section \<open>Properties of verification\<close>

lemma verifyWork_absent:
  "verifications s verificationId = None \<Longrightarrow>
   verifyWork s now verificationId verifierId approved notes =
     (Inl ''Work verification failed: Verification not found'', s)"
  by (simp add: verifyWork_def)

lemma verifyWork_approved:
  assumes "verifications s verificationId = Some v"
    and "transactions s (v_transaction_id v) = Some t"
    and "matches s (t_match_id t) = Some m"
  shows "verifyWork s now verificationId verifierId True notes =
     (Inr (v\<lparr>v_verified := True, v_verifier_id := Some verifierId, v_notes := Some notes,
              v_updated_at := now\<rparr>),
      s\<lparr>verifications := (verifications s)(verificationId \<mapsto>
            v\<lparr>v_verified := True, v_verifier_id := Some verifierId, v_notes := Some notes,
              v_updated_at := now\<rparr>),
         transactions := (transactions s)(v_transaction_id v \<mapsto>
            t\<lparr>t_status := ''verified'', t_updated_at := now\<rparr>),
         matches := (matches s)(t_match_id t \<mapsto>
            m\<lparr>m_status := ''completed'', m_updated_at := now\<rparr>)\<rparr>)"
  using assms
  by (simp add: verifyWork_def set_transaction_status_def set_match_status_def Let_def)

text \<open>
  Claim C5. Without a row for the id, \<^verbatim>\<open>verifyWork\<close> fails with
  \<^verbatim>\<open>Verification not found\<close> and changes nothing. For a verification row whose transaction
  and match exist, \<^verbatim>\<open>verifyWork\<close> with \<^verbatim>\<open>approved = true\<close> succeeds, records the decision
  in the verification row, sets the transaction to \<^verbatim>\<open>'verified'\<close> and the match to
  \<^verbatim>\<open>'completed'\<close>; it sends the processor nothing, and the transaction is neither
  \<^verbatim>\<open>'settled'\<close> nor \<^verbatim>\<open>'refunded'\<close> afterwards.
\<close>

theorem verifyWork_approved_cascade:
  "(verifications s verificationId = None \<longrightarrow>
      verifyWork s now verificationId verifierId approved notes =
        (Inl ''Work verification failed: Verification not found'', s))
   \<and> (verifications s verificationId = Some v
        \<and> transactions s (v_transaction_id v) = Some t
        \<and> matches s (t_match_id t) = Some m \<longrightarrow>
      (\<exists>s'. verifyWork s now verificationId verifierId True notes =
           (Inr (v\<lparr>v_verified := True, v_verifier_id := Some verifierId,
                    v_notes := Some notes, v_updated_at := now\<rparr>), s')
         \<and> verifications s' verificationId =
             Some (v\<lparr>v_verified := True, v_verifier_id := Some verifierId,
                     v_notes := Some notes, v_updated_at := now\<rparr>)
         \<and> transactions s' (v_transaction_id v) =
             Some (t\<lparr>t_status := ''verified'', t_updated_at := now\<rparr>)
         \<and> matches s' (t_match_id t) =
             Some (m\<lparr>m_status := ''completed'', m_updated_at := now\<rparr>)
         \<and> stripe_calls s' = stripe_calls s
         \<and> map_option t_status (transactions s' (v_transaction_id v))
             \<notin> {Some ''settled'', Some ''refunded''}))"
proof (intro conjI impI)
  assume "verifications s verificationId = None"
  then show "verifyWork s now verificationId verifierId approved notes =
        (Inl ''Work verification failed: Verification not found'', s)"
    by (rule verifyWork_absent)
next
  assume "verifications s verificationId = Some v
        \<and> transactions s (v_transaction_id v) = Some t
        \<and> matches s (t_match_id t) = Some m"
  then have "verifyWork s now verificationId verifierId True notes =
     (Inr (v\<lparr>v_verified := True, v_verifier_id := Some verifierId, v_notes := Some notes,
              v_updated_at := now\<rparr>),
      s\<lparr>verifications := (verifications s)(verificationId \<mapsto>
            v\<lparr>v_verified := True, v_verifier_id := Some verifierId, v_notes := Some notes,
              v_updated_at := now\<rparr>),
         transactions := (transactions s)(v_transaction_id v \<mapsto>
            t\<lparr>t_status := ''verified'', t_updated_at := now\<rparr>),
         matches := (matches s)(t_match_id t \<mapsto>
            m\<lparr>m_status := ''completed'', m_updated_at := now\<rparr>)\<rparr>)"
    by (simp add: verifyWork_approved)
  then show "\<exists>s'. verifyWork s now verificationId verifierId True notes =
           (Inr (v\<lparr>v_verified := True, v_verifier_id := Some verifierId,
                    v_notes := Some notes, v_updated_at := now\<rparr>), s')
         \<and> verifications s' verificationId =
             Some (v\<lparr>v_verified := True, v_verifier_id := Some verifierId,
                     v_notes := Some notes, v_updated_at := now\<rparr>)
         \<and> transactions s' (v_transaction_id v) =
             Some (t\<lparr>t_status := ''verified'', t_updated_at := now\<rparr>)
         \<and> matches s' (t_match_id t) =
             Some (m\<lparr>m_status := ''completed'', m_updated_at := now\<rparr>)
         \<and> stripe_calls s' = stripe_calls s
         \<and> map_option t_status (transactions s' (v_transaction_id v))
             \<notin> {Some ''settled'', Some ''refunded''}"
    by simp
qed

text \<open>
  In the sample marketplace the requester approves the submitted proof, and an unknown id
  is refused.
\<close>

theorem verifyWork_approved_cascade_witness:
  "verifications (sample_state ''in_progress'' ''accepted'' ''escrowed'') ''ver-9'' = None
   \<and> verifyWork (sample_state ''in_progress'' ''accepted'' ''escrowed'') 13 ''ver-9''
        ''requester-1'' True ''fine''
      = (Inl ''Work verification failed: Verification not found'',
         sample_state ''in_progress'' ''accepted'' ''escrowed'')
   \<and> verifications (sample_state ''in_progress'' ''accepted'' ''escrowed'') ''ver-1''
      = Some sample_verification
   \<and> transactions (sample_state ''in_progress'' ''accepted'' ''escrowed'')
        (v_transaction_id sample_verification) = Some (sample_transaction ''escrowed'')
   \<and> matches (sample_state ''in_progress'' ''accepted'' ''escrowed'')
        (t_match_id (sample_transaction ''escrowed'')) = Some (sample_match ''accepted'')
   \<and> (\<exists>s'. verifyWork (sample_state ''in_progress'' ''accepted'' ''escrowed'') 13 ''ver-1''
             ''requester-1'' True ''fine''
           = (Inr (sample_verification\<lparr>v_verified := True,
                     v_verifier_id := Some ''requester-1'', v_notes := Some ''fine'',
                     v_updated_at := 13\<rparr>), s')
         \<and> map_option t_status (transactions s' ''tx-1'') = Some ''verified''
         \<and> map_option m_status (matches s' ''match-1'') = Some ''completed''
         \<and> stripe_calls s' = [])"
proof -
  let ?s = "sample_state ''in_progress'' ''accepted'' ''escrowed''"
  have absent: "verifications ?s ''ver-9'' = None"
    by (simp add: sample_state_def)
  have present: "verifications ?s ''ver-1'' = Some sample_verification
        \<and> transactions ?s (v_transaction_id sample_verification)
            = Some (sample_transaction ''escrowed'')
        \<and> matches ?s (t_match_id (sample_transaction ''escrowed''))
            = Some (sample_match ''accepted'')"
    by (simp add: sample_state_def sample_verification_def sample_transaction_def)
  have ids: "v_transaction_id sample_verification = ''tx-1''"
    "t_match_id (sample_transaction ''escrowed'') = ''match-1''" "stripe_calls ?s = []"
    by (simp_all add: sample_state_def sample_verification_def sample_transaction_def)
  from absent verifyWork_approved_cascade [of ?s "''ver-9''" 13 "''requester-1''" True "''fine''"]
  have part1: "verifyWork ?s 13 ''ver-9'' ''requester-1'' True ''fine''
      = (Inl ''Work verification failed: Verification not found'', ?s)"
    by blast
  from present verifyWork_approved_cascade [of ?s "''ver-1''" 13 "''requester-1''" True "''fine''"
      sample_verification "sample_transaction ''escrowed''" "sample_match ''accepted''"]
  have part2: "\<exists>s'. verifyWork ?s 13 ''ver-1'' ''requester-1'' True ''fine''
           = (Inr (sample_verification\<lparr>v_verified := True,
                     v_verifier_id := Some ''requester-1'', v_notes := Some ''fine'',
                     v_updated_at := 13\<rparr>), s')
         \<and> map_option t_status (transactions s' ''tx-1'') = Some ''verified''
         \<and> map_option m_status (matches s' ''match-1'') = Some ''completed''
         \<and> stripe_calls s' = []"
    by (auto simp: ids)
  show ?thesis
    using absent present part1 part2 by simp
qed

text \<open>
  Claim C10. For a verification row that exists, \<^verbatim>\<open>verifyWork\<close> with
  \<^verbatim>\<open>approved = false\<close> succeeds and the store differs from the one before in that row
  alone, where \<^verbatim>\<open>verified\<close>, \<^verbatim>\<open>verifier_id\<close>, \<^verbatim>\<open>notes\<close> and \<^verbatim>\<open>updated_at\<close> are set;
  transactions and matches are as before and the processor is sent nothing.
\<close>

theorem verifyWork_rejected_frame:
  assumes "verifications s verificationId = Some v"
  shows "verifyWork s now verificationId verifierId False notes =
           (Inr (v\<lparr>v_verified := False, v_verifier_id := Some verifierId,
                    v_notes := Some notes, v_updated_at := now\<rparr>),
            s\<lparr>verifications := (verifications s)(verificationId \<mapsto>
                 v\<lparr>v_verified := False, v_verifier_id := Some verifierId,
                   v_notes := Some notes, v_updated_at := now\<rparr>)\<rparr>)
       \<and> transactions (snd (verifyWork s now verificationId verifierId False notes))
           = transactions s
       \<and> matches (snd (verifyWork s now verificationId verifierId False notes)) = matches s
       \<and> stripe_calls (snd (verifyWork s now verificationId verifierId False notes))
           = stripe_calls s"
  using assms by (simp add: verifyWork_def Let_def)

text \<open>The requester rejects the submitted proof of the sample marketplace.\<close>

theorem verifyWork_rejected_frame_witness:
  "verifications (sample_state ''in_progress'' ''accepted'' ''escrowed'') ''ver-1''
      = Some sample_verification
   \<and> fst (verifyWork (sample_state ''in_progress'' ''accepted'' ''escrowed'') 13 ''ver-1''
        ''requester-1'' False ''incomplete'')
      = Inr (sample_verification\<lparr>v_verified := False, v_verifier_id := Some ''requester-1'',
               v_notes := Some ''incomplete'', v_updated_at := 13\<rparr>)
   \<and> map_option t_status
        (transactions (snd (verifyWork (sample_state ''in_progress'' ''accepted'' ''escrowed'')
           13 ''ver-1'' ''requester-1'' False ''incomplete'')) ''tx-1'') = Some ''escrowed''
   \<and> map_option m_status
        (matches (snd (verifyWork (sample_state ''in_progress'' ''accepted'' ''escrowed'')
           13 ''ver-1'' ''requester-1'' False ''incomplete'')) ''match-1'') = Some ''accepted''
   \<and> stripe_calls (snd (verifyWork (sample_state ''in_progress'' ''accepted'' ''escrowed'')
           13 ''ver-1'' ''requester-1'' False ''incomplete'')) = []"
proof -
  let ?s = "sample_state ''in_progress'' ''accepted'' ''escrowed''"
  have present: "verifications ?s ''ver-1'' = Some sample_verification"
    by (simp add: sample_state_def)
  have before: "map_option t_status (transactions ?s ''tx-1'') = Some ''escrowed''"
    "map_option m_status (matches ?s ''match-1'') = Some ''accepted''" "stripe_calls ?s = []"
    by (simp_all add: sample_state_def sample_transaction_def sample_match_def)
  show ?thesis
    using present before
      verifyWork_rejected_frame [OF present, of 13 "''requester-1''" "''incomplete''"]
    by simp
qed



end
